theory Spec2Isabelle
  imports Complex_Main "HOL-Library.Sublist" "HOL-Library.Product_Lexorder"
    "HOL-Library.Multiset"
begin

section \<open>JavaScript values\<close>

text \<open>
  The values a backend response carries after \<^verbatim>\<open>response.json()\<close>. An object is the list
  of its own properties in insertion order (keys unique, as \<^verbatim>\<open>JSON.parse\<close> leaves them).
\<close>

datatype json =
    JNull
  | JBool bool
  | JNum rat
  | JStr string
  | JArr "json list"
  | JObj "(string \<times> json) list"

text \<open>JavaScript truthiness, as \<^verbatim>\<open>!x\<close>, \<^verbatim>\<open>x || y\<close> and \<^verbatim>\<open>x ? a : b\<close> read it.\<close>

fun truthy :: "json \<Rightarrow> bool" where
  "truthy JNull = False"
| "truthy (JBool b) = b"
| "truthy (JNum n) = (n \<noteq> 0)"
| "truthy (JStr s) = (s \<noteq> [])"
| "truthy (JArr xs) = True"
| "truthy (JObj kvs) = True"

text \<open>
  Errors a handler can see: \<^verbatim>\<open>new Error(msg)\<close> with a literal or computed message,
  \<^verbatim>\<open>new Error(errorData.detail)\<close> with the truthy JSON value the backend sent,
  the \<^verbatim>\<open>TypeError\<close> of a property read on \<^verbatim>\<open>null\<close>, and a rejection raised by a
  collaborator (Clerk's \<^verbatim>\<open>getToken\<close>, \<^verbatim>\<open>fetch\<close>, \<^verbatim>\<open>response.json()\<close>).
\<close>

datatype js_error =
    Error string
  | DetailError json
  | TypeError
  | Rejected string

text \<open>
  Property read \<^verbatim>\<open>x.key\<close>: throws on \<^verbatim>\<open>null\<close>, is \<^verbatim>\<open>undefined\<close> (\<open>None\<close>) where the
  property is missing or the value is a primitive or an array.
\<close>

fun get_prop :: "json \<Rightarrow> string \<Rightarrow> js_error + json option" where
  "get_prop JNull k = Inl TypeError"
| "get_prop (JObj kvs) k = Inr (map_of kvs k)"
| "get_prop v k = Inr None"

text \<open>\<^verbatim>\<open>x || dflt\<close> for a possibly undefined \<open>x\<close>.\<close>

fun or_else :: "json option \<Rightarrow> json \<Rightarrow> json" where
  "or_else None dflt = dflt"
| "or_else (Some v) dflt = (if truthy v then v else dflt)"

text \<open>\<^verbatim>\<open>s.includes(t)\<close>: \<open>t\<close> occurs in \<open>s\<close> as a contiguous run.\<close>

fun js_includes :: "string \<Rightarrow> string \<Rightarrow> bool" where
  "js_includes [] t = (t = [])"
| "js_includes (c # s) t = (prefix t (c # s) \<or> js_includes s t)"

section \<open>The API layer: useBackendApi\<close>

record request =
  url :: string
  http_method :: string
  content_type_header :: string
  authorization :: string
  body :: "json option"

record response =
  content_type :: "string option"
  ok :: bool
  status :: nat
  json_body :: "js_error + json"

text \<open>
  What the hook reads from outside: the value of \<^verbatim>\<open>NEXT_PUBLIC_BACKEND_URL\<close>, the result of
  \<^verbatim>\<open>await getToken()\<close> (a rejection, \<^verbatim>\<open>null\<close> or a string) and the network, as the
  result of \<^verbatim>\<open>await fetch(url, config)\<close> for each request.
\<close>

record api_env =
  backend_url_env :: "string option"
  getToken :: "js_error + string option"
  fetch :: "request \<Rightarrow> js_error + response"

definition BACKEND_URL :: "api_env \<Rightarrow> string" where
  "BACKEND_URL env =
     (case backend_url_env env of
        None \<Rightarrow> ''http://localhost:8000''
      | Some u \<Rightarrow> if u = [] then ''http://localhost:8000'' else u)"

text \<open>The decimal digits of a status code, for the template string of the error message.\<close>

fun digits :: "nat \<Rightarrow> string" where
  "digits n =
     (if n < 10 then [char_of (48 + n)]
      else digits (n div 10) @ [char_of (48 + n mod 10)])"

definition status_message :: "nat \<Rightarrow> string" where
  "status_message n = ''API call failed with status '' @ digits n"

text \<open>
  The \<^verbatim>\<open>!response.ok\<close> branch: the message is \<^verbatim>\<open>errorData.detail\<close> when the body parses
  and the detail is truthy, the status message otherwise (also when reading the body or
  the property throws: the inner \<^verbatim>\<open>catch\<close>).
\<close>

definition not_ok_error :: "response \<Rightarrow> js_error" where
  "not_ok_error resp =
     (case json_body resp of
        Inl e \<Rightarrow> Error (status_message (status resp))
      | Inr errorData \<Rightarrow>
          (case get_prop errorData ''detail'' of
             Inl e \<Rightarrow> Error (status_message (status resp))
           | Inr None \<Rightarrow> Error (status_message (status resp))
           | Inr (Some d) \<Rightarrow>
               if truthy d then DetailError d
               else Error (status_message (status resp))))"

text \<open>
  \<^verbatim>\<open>callBackendApi(endpoint, method, data)\<close>. The result pairs the requests handed to
  \<^verbatim>\<open>fetch\<close>, in order, with what the promise settles to. \<^verbatim>\<open>JSON.stringify(data)\<close> is kept
  as the value it serialises; the log lines are left out.
\<close>

definition callBackendApi ::
  "api_env \<Rightarrow> string \<Rightarrow> string \<Rightarrow> json option \<Rightarrow> request list \<times> (js_error + json)" where
  "callBackendApi env endpoint meth data =
     (case getToken env of
        Inl e \<Rightarrow> ([], Inl e)
      | Inr None \<Rightarrow> ([], Inl (Error ''No Clerk token found. User might not be authenticated.''))
      | Inr (Some token) \<Rightarrow>
          if token = [] then
            ([], Inl (Error ''No Clerk token found. User might not be authenticated.''))
          else
            let config = \<lparr> url = BACKEND_URL env @ endpoint,
                           http_method = meth,
                           content_type_header = ''application/json'',
                           authorization = ''Bearer '' @ token,
                           body = (case data of
                                     None \<Rightarrow> None
                                   | Some d \<Rightarrow> if truthy d then Some d else None) \<rparr>
            in (case fetch env config of
                  Inl e \<Rightarrow> ([config], Inl e)
                | Inr resp \<Rightarrow>
                    if (case content_type resp of
                          None \<Rightarrow> False
                        | Some ct \<Rightarrow> ct \<noteq> [] \<and> js_includes ct ''text/html'')
                    then ([config], Inl (Error ''Backend requires authentication. Please check Vercel deployment protection settings.''))
                    else if \<not> ok resp then ([config], Inl (not_ok_error resp))
                    else ([config], json_body resp)))"

section \<open>The page component: MatrixPage\<close>

datatype AnalysisType = general | risk | compliance

fun analysis_type_string :: "AnalysisType \<Rightarrow> string" where
  "analysis_type_string general = ''general''"
| "analysis_type_string risk = ''risk''"
| "analysis_type_string compliance = ''compliance''"

text \<open>
  The component's state, one field per \<^verbatim>\<open>useState\<close>. \<open>analysisType\<close> is declared as
  \<^verbatim>\<open>const [analysisType] = useState('general')\<close>: the setter is not even bound.
\<close>

record page_state =
  prompt :: string
  analysisType :: AnalysisType
  generatedColumns :: json
  data :: json
  specializedResult :: json
  isLoading :: bool
  isIngesting :: bool

definition initial_prompt :: string where
  "initial_prompt = ''Scan all third-party contracts and virtual data room documents for any change-of-control provisions, termination-for-convenience clauses, or non-solicitation clauses that would be triggered by this acquisition. Present a summary of each risk identified, citing the source document and page number.''"

definition initial_state :: page_state where
  "initial_state =
     \<lparr> prompt = initial_prompt, analysisType = general, generatedColumns = JArr [],
       data = JObj [], specializedResult = JNull, isLoading = False, isIngesting = False \<rparr>"

text \<open>One call of \<^verbatim>\<open>callBackendApi\<close> as the page issues it: endpoint, method, data.\<close>

type_synonym api_call = "string \<times> string \<times> json"

definition extract_payload :: "page_state \<Rightarrow> json" where
  "extract_payload s =
     JObj [(''prompt'', JStr (prompt s)),
           (''analysis_type'', JStr (analysis_type_string (analysisType s)))]"

text \<open>
  The call \<^verbatim>\<open>handleExtract\<close> issues: the \<^verbatim>\<open>if (analysisType === 'general')\<close> of the
  \<^verbatim>\<open>try\<close> block.
\<close>

definition extract_call :: "page_state \<Rightarrow> api_call" where
  "extract_call s =
     (if analysisType s = general
      then (''/api/process'', ''POST'', extract_payload s)
      else (''/api/analyze-specialized'', ''POST'', extract_payload s))"

text \<open>
  What the \<^verbatim>\<open>try\<close> block does with the settled call. In the general branch it reads
  \<^verbatim>\<open>result.columns || []\<close> and \<^verbatim>\<open>result.data || {}\<close>; in the other it stores the whole
  result. A thrown error (the call's, or the property read on a \<^verbatim>\<open>null\<close> result) is only
  logged by the \<^verbatim>\<open>catch\<close>.
\<close>

definition consume_result :: "page_state \<Rightarrow> js_error + json \<Rightarrow> page_state" where
  "consume_result s r =
     (case r of
        Inl e \<Rightarrow> s
      | Inr result \<Rightarrow>
          if analysisType s = general then
            (case get_prop result ''columns'' of
               Inl e \<Rightarrow> s
             | Inr cols \<Rightarrow>
                 (case get_prop result ''data'' of
                    Inl e \<Rightarrow> s\<lparr> generatedColumns := or_else cols (JArr []) \<rparr>
                  | Inr d \<Rightarrow> s\<lparr> generatedColumns := or_else cols (JArr []),
                                data := or_else d (JObj []) \<rparr>))
          else s\<lparr> specializedResult := result \<rparr>)"

text \<open>
  \<^verbatim>\<open>handleExtract\<close>, from the click to the \<^verbatim>\<open>finally\<close>: the calls issued to the API
  layer, the requests that reached \<^verbatim>\<open>fetch\<close>, and the state after the last setter.
\<close>

definition handleExtract ::
  "api_env \<Rightarrow> page_state \<Rightarrow> api_call list \<times> request list \<times> page_state" where
  "handleExtract env s =
     (let s1 = s\<lparr> isLoading := True, data := JObj [], generatedColumns := JArr [],
                  specializedResult := JNull \<rparr>;
          c = extract_call s1;
          (reqs, r) = callBackendApi env (fst c) (fst (snd c)) (Some (snd (snd c)));
          s2 = consume_result s1 r
      in ([c], reqs, s2\<lparr> isLoading := False \<rparr>))"

definition FOLDER_ID :: string where
  "FOLDER_ID = ''1WSbRHNWZEUn2uaTNTSHHuMTMpldhiiwH''"

text \<open>
  \<^verbatim>\<open>handleIngest\<close>: it touches \<open>isIngesting\<close> only (the alerts are left out), and returns
  before any call when the folder id is empty.
\<close>

definition handleIngest ::
  "api_env \<Rightarrow> page_state \<Rightarrow> api_call list \<times> request list \<times> page_state" where
  "handleIngest env s =
     (let s1 = s\<lparr> isIngesting := True \<rparr> in
      if FOLDER_ID = [] then ([], [], s1\<lparr> isIngesting := False \<rparr>)
      else
        let c = (''/api/ingest-documents'', ''POST'', JObj [(''folder_id'', JStr FOLDER_ID)]);
            (reqs, r) = callBackendApi env (fst c) (fst (snd c)) (Some (snd (snd c)))
        in ([c], reqs, s1\<lparr> isIngesting := False \<rparr>))"

text \<open>
  The interactions the rendered page offers: typing in the input (\<^verbatim>\<open>onChange\<close>), the
  Extract button or the Enter key (both inert while \<open>isLoading\<close>), and the Ingest button
  (disabled while \<open>isIngesting\<close>). Each carries the environment its call meets.
\<close>

datatype event =
    ChangePrompt string
  | Extract api_env
  | Ingest api_env

fun step :: "page_state \<Rightarrow> event \<Rightarrow> page_state" where
  "step s (ChangePrompt p) = s\<lparr> prompt := p \<rparr>"
| "step s (Extract env) = (if isLoading s then s else snd (snd (handleExtract env s)))"
| "step s (Ingest env) = (if isIngesting s then s else snd (snd (handleIngest env s)))"

definition run :: "event list \<Rightarrow> page_state" where
  "run evs = foldl step initial_state evs"

text \<open>The results area: \<^verbatim>\<open>analysisType === 'general' ? <MatrixTable .../> : <div>...\<close>.\<close>

datatype results_view =
    MatrixTableView json json bool string
  | SpecializedView bool json

definition render_results :: "page_state \<Rightarrow> results_view" where
  "render_results s =
     (if analysisType s = general
      then MatrixTableView (generatedColumns s) (data s) (isLoading s) (prompt s)
      else SpecializedView (isLoading s) (specializedResult s))"

text \<open>
  The calls a sequence of interactions issues to the API layer, in order, from a given
  state.
\<close>

fun step_calls :: "page_state \<Rightarrow> event \<Rightarrow> api_call list" where
  "step_calls s (ChangePrompt p) = []"
| "step_calls s (Extract env) = (if isLoading s then [] else fst (handleExtract env s))"
| "step_calls s (Ingest env) = (if isIngesting s then [] else fst (handleIngest env s))"

fun calls_from :: "page_state \<Rightarrow> event list \<Rightarrow> api_call list" where
  "calls_from s [] = []"
| "calls_from s (ev # evs) = step_calls s ev @ calls_from (step s ev) evs"

definition run_calls :: "event list \<Rightarrow> api_call list" where
  "run_calls evs = calls_from initial_state evs"

text \<open>Two environments to run the model on: a signed-out session and a signed-in one.\<close>

definition env_signed_out :: api_env where
  "env_signed_out =
     \<lparr> backend_url_env = None, getToken = Inr None,
       fetch = (\<lambda>rq. Inl (Rejected ''network'')) \<rparr>"

definition matrix_response :: response where
  "matrix_response =
     \<lparr> content_type = Some ''application/json'', ok = True, status = 200,
       json_body = Inr (JObj [(''columns'', JArr [JStr ''Notice'']),
                              (''data'', JObj [(''a.docx'', JObj [])])]) \<rparr>"

definition env_signed_in :: api_env where
  "env_signed_in =
     \<lparr> backend_url_env = None, getToken = Inr (Some ''tok''),
       fetch = (\<lambda>rq. Inr matrix_response) \<rparr>"

section \<open>The table components: MatrixCell and MatrixTable\<close>

text \<open>
  \<^verbatim>\<open>CellData\<close>, with the fields the two components read. \<^verbatim>\<open>value\<close> is \<open>None\<close> when the
  property is missing or \<^verbatim>\<open>null\<close> at run time (the components guard for it with
  \<^verbatim>\<open>!data.value\<close> and \<^verbatim>\<open>cell.value &&\<close>).
\<close>

record CellData =
  cell_value :: "string option"
  source :: string
  page_numbers :: "string list option"
  document_url :: "string option"
  exact_quote :: "string option"

text \<open>
  What \<^verbatim>\<open>MatrixCell\<close> returns: the placeholder cell with the dash, or a cell showing the
  (truncated) value as a link, the (truncated) source and the page numbers. The hover
  tooltip is left out.
\<close>

datatype cell_view =
    EmptyCell
  | ValueCell string string string "string list"

definition MatrixCell :: "CellData option \<Rightarrow> cell_view" where
  "MatrixCell cell =
     (case cell of
        None \<Rightarrow> EmptyCell
      | Some d \<Rightarrow>
          (case cell_value d of
             None \<Rightarrow> EmptyCell
           | Some v \<Rightarrow>
               if v = [] \<or> v = ''N/A'' \<or> v = ''Not found'' \<or> v = ''Not specified''
                  \<or> v = ''Not Found''
               then EmptyCell
               else ValueCell
                      (if length v > 150 then take 147 v @ ''...'' else v)
                      (if length (source d) > 100 then take 97 (source d) @ ''...''
                       else source d)
                      (case document_url d of
                         None \<Rightarrow> ''#''
                       | Some u \<Rightarrow> if u = [] then ''#'' else u)
                      (case page_numbers d of None \<Rightarrow> [] | Some ps \<Rightarrow> ps)))"

text \<open>
  \<^verbatim>\<open>MatrixData\<close>: document name to column name to cell, as lists of the objects' entries
  (\<^verbatim>\<open>Object.values\<close>, \<^verbatim>\<open>Object.entries\<close> order). A cell may be \<^verbatim>\<open>null\<close>.
\<close>

type_synonym MatrixRow = "(string \<times> CellData option) list"
type_synonym MatrixData = "(string \<times> MatrixRow) list"

definition documentCount :: "MatrixData \<Rightarrow> nat" where
  "documentCount mdata = length mdata"

text \<open>
  The filter of the header statistics:
  \<^verbatim>\<open>cell && cell.value && cell.value !== 'N/A' && cell.value !== 'Not found'\<close>.
\<close>

definition extraction_filter :: "CellData option \<Rightarrow> bool" where
  "extraction_filter cell =
     (case cell of
        None \<Rightarrow> False
      | Some d \<Rightarrow>
          (case cell_value d of
             None \<Rightarrow> False
           | Some v \<Rightarrow> v \<noteq> [] \<and> v \<noteq> ''N/A'' \<and> v \<noteq> ''Not found''))"

definition totalExtractions :: "MatrixData \<Rightarrow> nat" where
  "totalExtractions mdata =
     foldl (\<lambda>total docData. total + length (filter extraction_filter (map snd docData)))
       0 (map snd mdata)"

text \<open>
  The data cells of one row:
  \<^verbatim>\<open>columns.map(col => <MatrixCell data={rowData[col] || null} .../>)\<close>.
\<close>

definition row_cells :: "string list \<Rightarrow> MatrixRow \<Rightarrow> cell_view list" where
  "row_cells columns rowData =
     map (\<lambda>col. MatrixCell (case map_of rowData col of None \<Rightarrow> None | Some c \<Rightarrow> c)) columns"

section \<open>The workflow engine\<close>

text \<open>
  The page's two endpoints are served by the backend's workflow engine (retriever,
  extractor, validator, synthesizer, orchestrator). Its modules are not among the
  sources; the backend README (which names them, and gives \<^verbatim>\<open>TOP_K = 20\<close>,
  \<^verbatim>\<open>SCORE_THRESHOLD = 0.3\<close>, \<^verbatim>\<open>MIN_RETRIEVAL_CONFIDENCE = 0.4\<close>, \<^verbatim>\<open>MIN_SUCCESS_RATE = 30\<close>
  (a percentage) and \<^verbatim>\<open>MAX_RETRIES = 3\<close>) is. The definitions of this section follow the
  specification's description of the engine. Scores, rates and confidences are exact
  rationals.
\<close>

subsection \<open>Hybrid retrieval\<close>

text \<open>
  Modelled from the spec: the strategy tag of a retrieval candidate (section 3,
  RetrievalCandidate); the retriever's code (\<^verbatim>\<open>agents/retrieval_agent.py\<close>) is missing.
\<close>

datatype strategy = semantic | keyword | termMatch

text \<open>
  Modelled from the spec: a candidate as the retriever ranks it, a chunk identifier with
  a score (section 3); the chunk's document is read from the chunk store. The
  retriever's code is missing.
\<close>

type_synonym 'c scored = "'c \<times> rat"

text \<open>
  Modelled from the spec: the retrieval parameters, \<open>scoreThreshold\<close> and \<open>K\<close> (here
  \<open>topK\<close>), with their defaults 0.3 and 20 (section 4.2); the retriever's code is
  missing.
\<close>

record retrievalParams =
  scoreThreshold :: rat
  topK :: nat

definition default_params :: retrievalParams where
  "default_params = \<lparr> scoreThreshold = 3 / 10, topK = 20 \<rparr>"

text \<open>
  Modelled from the spec: the per-strategy weight applied to a strategy's scores before
  fusion ("weights configurable", section 4.2); the retriever's code is missing. The
  weights are a parameter.
\<close>

definition weighted :: "(strategy \<Rightarrow> rat) \<Rightarrow> strategy \<times> 'c scored list \<Rightarrow> 'c scored list" where
  "weighted w r = map (\<lambda>(c, s). (c, w (fst r) * s)) (snd r)"

text \<open>
  Modelled from the spec: "candidates are merged by chunk identity", one entry per
  chunk, keeping the maximum of the scores seen for it ("dedup by max fused score per
  chunk id", section 8.3); the retriever's code is missing.
\<close>

fun upsert_max :: "'c scored \<Rightarrow> 'c scored list \<Rightarrow> 'c scored list" where
  "upsert_max (c, s) [] = [(c, s)]"
| "upsert_max (c, s) ((c', s') # rest) =
     (if c = c' then (c', max s s') # rest else (c', s') # upsert_max (c, s) rest)"

definition merge_by_chunk :: "'c scored list \<Rightarrow> 'c scored list" where
  "merge_by_chunk cands = foldl (\<lambda>acc x. upsert_max x acc) [] cands"

text \<open>
  Modelled from the spec: the ranking order, higher score first, "ties broken by
  ascending chunk identifier" (section 4.2); the retriever's code is missing.
\<close>

definition rank_key :: "('c::linorder) scored \<Rightarrow> rat \<times> 'c" where
  "rank_key x = (- snd x, fst x)"

text \<open>
  Modelled from the spec: rank fusion (section 4.2). The strategies' candidate lists, in
  the order the strategies are merged, are weighted, merged by chunk, "filtered to
  scores \<open>\<ge> scoreThreshold\<close> and truncated to the top \<open>K\<close>". The retriever's code is
  missing.
\<close>

definition fuse ::
  "(strategy \<Rightarrow> rat) \<Rightarrow> retrievalParams \<Rightarrow> (strategy \<times> ('c::linorder) scored list) list
     \<Rightarrow> 'c scored list" where
  "fuse w p results =
     take (topK p)
       (sort_key rank_key
          (filter (\<lambda>x. scoreThreshold p \<le> snd x)
             (merge_by_chunk (concat (map (weighted w) results)))))"

text \<open>
  Modelled from the spec: the relaxation of the retrieval parameters on retry,
  "\<open>scoreThreshold\<close> halved, \<open>K\<close> increased by a fixed step" (section 4.4); the validator's
  code (\<^verbatim>\<open>agents/validation_agent.py\<close>) is missing. The spec does not give the step: it is a
  parameter.
\<close>

definition relax :: "nat \<Rightarrow> retrievalParams \<Rightarrow> retrievalParams" where
  "relax k_step p = \<lparr> scoreThreshold = scoreThreshold p / 2, topK = topK p + k_step \<rparr>"

subsection \<open>Validator and orchestrator\<close>

text \<open>
  Modelled from the spec: the error taxonomy of section 7, as far as it ends a request;
  the orchestrator's code (\<^verbatim>\<open>agents/langgraph_workflow.py\<close>) is missing.
\<close>

datatype failure =
    InvalidRequest | NoFieldsDerived | RetrievalFailure | PersistenceFailure
  | Unauthenticated | Cancelled

text \<open>
  Modelled from the spec: the states of the orchestrator's state machine, "Processing,
  Retrieving, Extracting, Validating, Retrieving (on retry) or Synthesizing, Done", and
  the error terminal state "carrying the specific failure kind" (section 4); the
  orchestrator's code is missing.
\<close>

datatype stage =
    Processing | Retrieving | Extracting | Validating | Synthesizing | Done | Failed failure

text \<open>
  Modelled from the spec: the validator's thresholds (section 4.4; the README's
  \<^verbatim>\<open>MIN_SUCCESS_RATE = 30\<close> is the same bound as a percentage); the validator's code is
  missing.
\<close>

definition MAX_RETRIES :: nat where
  "MAX_RETRIES = 3"

definition MIN_SUCCESS_RATE :: rat where
  "MIN_SUCCESS_RATE = 3 / 10"

definition MIN_RETRIEVAL_CONFIDENCE :: rat where
  "MIN_RETRIEVAL_CONFIDENCE = 4 / 10"

text \<open>
  Modelled from the spec: ValidationVerdict (section 3), without the free-text reason;
  the validator's code is missing.
\<close>

record ValidationVerdict =
  successRate :: rat
  meanRetrievalConfidence :: rat
  shouldRetry :: bool

text \<open>
  Modelled from the spec: WorkflowState (section 3), the record threaded through the
  machine. The retrieval and extraction results of the current pass are kept as the two
  figures the validator aggregates from them: the mean retrieval confidence and the
  success rate. The orchestrator's code is missing.
\<close>

record WorkflowState =
  stage :: stage
  retryCount :: nat
  retrievalParams :: retrievalParams
  passRetrievalConfidence :: rat
  passSuccessRate :: rat
  verdict :: "ValidationVerdict option"

text \<open>
  Modelled from the spec: what the orchestrator receives from outside the engine
  (sections 4.1 to 4.5, 5 and 6), whose code is missing: whether the authentication
  collaborator supplied a verified caller; query processing (a failure, or the number of
  fields derived); retrieval for a pass with given parameters (a failure, or the pass's
  mean retrieval confidence); extraction for a pass (its success rate; per-cell failures
  do not fail the pass); whether the result store accepts the upsert; whether the
  request's cancellation signal has fired when a given stage of a given pass is due; and
  the configured step of \<open>K\<close>. A pass is numbered by the retry count, since the language
  capability need not answer twice alike.
\<close>

record capabilities =
  caller_verified :: bool
  derive_fields :: "failure + nat"
  retrieve :: "nat \<Rightarrow> retrievalParams \<Rightarrow> failure + rat"
  extract_rate :: "nat \<Rightarrow> retrievalParams \<Rightarrow> rat"
  persist_ok :: bool
  cancelled :: "nat \<Rightarrow> stage \<Rightarrow> bool"
  k_step :: nat

text \<open>
  Modelled from the spec: the validator's decision rule (section 4.4), "retry is
  requested when (\<open>successRate < MIN_SUCCESS_RATE\<close> OR \<open>meanRetrievalConfidence <
  MIN_RETRIEVAL_CONFIDENCE\<close>) AND \<open>retryCount < MAX_RETRIES\<close>; otherwise the pass is
  accepted". The validator's code is missing.
\<close>

definition validate :: "WorkflowState \<Rightarrow> ValidationVerdict" where
  "validate st =
     \<lparr> successRate = passSuccessRate st,
       meanRetrievalConfidence = passRetrievalConfidence st,
       shouldRetry =
         ((passSuccessRate st < MIN_SUCCESS_RATE
           \<or> passRetrievalConfidence st < MIN_RETRIEVAL_CONFIDENCE)
          \<and> retryCount st < MAX_RETRIES) \<rparr>"

text \<open>
  Modelled from the spec: the state a request starts in, "Initial: Processing", no retry
  yet, default retrieval parameters; the orchestrator's code is missing.
\<close>

definition initial_workflow :: WorkflowState where
  "initial_workflow =
     \<lparr> stage = Processing, retryCount = 0, retrievalParams = default_params,
       passRetrievalConfidence = 0, passSuccessRate = 0, verdict = None \<rparr>"

text \<open>
  Modelled from the spec: the terminal states, "Done or an error state" (section 4); the
  orchestrator's code is missing.
\<close>

fun terminal :: "stage \<Rightarrow> bool" where
  "terminal Done = True"
| "terminal (Failed f) = True"
| "terminal s = False"

text \<open>
  Modelled from the spec: one transition of the state machine (section 4, "Orchestrator
  state machine"). A fired cancellation signal sends any running stage "directly to an
  error terminal state" (section 5). Otherwise: processing fails closed without a
  verified caller, and query processing fails explicitly or yields at least one field; a
  retrieval failure aborts the request; extraction always reaches validation; the
  validator either takes the retry edge (counting the retry and relaxing the
  parameters) or accepts the pass; synthesis ends the request. The orchestrator's code
  is missing.
\<close>

definition advance :: "capabilities \<Rightarrow> WorkflowState \<Rightarrow> WorkflowState" where
  "advance caps st =
     (if \<not> terminal (stage st) \<and> cancelled caps (retryCount st) (stage st)
      then st\<lparr> stage := Failed Cancelled \<rparr>
      else
       (case stage st of
          Processing \<Rightarrow>
            (if \<not> caller_verified caps then st\<lparr> stage := Failed Unauthenticated \<rparr>
             else
              (case derive_fields caps of
                 Inl f \<Rightarrow> st\<lparr> stage := Failed f \<rparr>
               | Inr n \<Rightarrow> if n = 0 then st\<lparr> stage := Failed NoFieldsDerived \<rparr>
                          else st\<lparr> stage := Retrieving \<rparr>))
        | Retrieving \<Rightarrow>
            (case retrieve caps (retryCount st) (retrievalParams st) of
               Inl f \<Rightarrow> st\<lparr> stage := Failed f \<rparr>
             | Inr conf \<Rightarrow> st\<lparr> stage := Extracting, passRetrievalConfidence := conf \<rparr>)
        | Extracting \<Rightarrow>
            st\<lparr> stage := Validating,
                passSuccessRate := extract_rate caps (retryCount st) (retrievalParams st) \<rparr>
        | Validating \<Rightarrow>
            (let v = validate st in
             if shouldRetry v
             then st\<lparr> stage := Retrieving, verdict := Some v,
                       retryCount := retryCount st + 1,
                       retrievalParams := relax (k_step caps) (retrievalParams st) \<rparr>
             else st\<lparr> stage := Synthesizing, verdict := Some v \<rparr>)
        | Synthesizing \<Rightarrow>
            (if persist_ok caps then st\<lparr> stage := Done \<rparr>
             else st\<lparr> stage := Failed PersistenceFailure \<rparr>)
        | Done \<Rightarrow> st
        | Failed f \<Rightarrow> st))"

text \<open>The distance of a stage from the end of its pass, for the termination proof.\<close>

fun stage_rank :: "stage \<Rightarrow> nat" where
  "stage_rank Processing = 5"
| "stage_rank Retrieving = 4"
| "stage_rank Extracting = 3"
| "stage_rank Validating = 2"
| "stage_rank Synthesizing = 1"
| "stage_rank Done = 0"
| "stage_rank (Failed f) = 0"

text \<open>
  Modelled from the spec: a run of the machine, as the list of the states it passes
  through, from a given state to the terminal one; the orchestrator's code is missing.
  The run is total: every transition lowers the retries left or the stage's rank.
\<close>

function trace :: "capabilities \<Rightarrow> WorkflowState \<Rightarrow> WorkflowState list" where
  "trace caps st = (if terminal (stage st) then [st] else st # trace caps (advance caps st))"
  by pat_completeness auto
termination
proof (relation "measure (\<lambda>(caps, st). 4 * (MAX_RETRIES - retryCount st) + stage_rank (stage st))")
  show "wf (measure (\<lambda>(caps, st). 4 * (MAX_RETRIES - retryCount st) + stage_rank (stage st)))"
    by simp
next
  fix caps :: capabilities and st :: WorkflowState
  assume "\<not> terminal (stage st)"
  then show "((caps, advance caps st), (caps, st))
      \<in> measure (\<lambda>(caps, st). 4 * (MAX_RETRIES - retryCount st) + stage_rank (stage st))"
    by (cases "stage st")
      (simp_all add: advance_def validate_def MAX_RETRIES_def Let_def split: sum.splits, arith)
qed

declare trace.simps [simp del]

text \<open>
  Modelled from the spec: the retry edge, "the single controlled back-transition from
  validation to retrieval" (glossary), counted along a run; the orchestrator's code is
  missing.
\<close>

fun back_edges :: "WorkflowState list \<Rightarrow> nat" where
  "back_edges (a # b # rest) =
     (if stage a = Validating \<and> stage b = Retrieving then 1 else 0) + back_edges (b # rest)"
| "back_edges xs = 0"

text \<open>
  Modelled from the spec: \<open>runAnalysis\<close>, the entry point (section 6), as the state the
  run ends in: its \<open>retryCount\<close> and \<open>retrievalParams\<close> are the pass metadata the
  synthesizer returns (section 4.5). The orchestrator's code is missing.
\<close>

definition runAnalysis :: "capabilities \<Rightarrow> WorkflowState" where
  "runAnalysis caps = last (trace caps initial_workflow)"

text \<open>
  Two sets of capabilities to run the engine on: the scenario of section 8.6 (pass 1 has
  success rate 0.20, pass 2 has 0.55), and a corpus on which every pass is poor.
\<close>

definition caps_scenario :: capabilities where
  "caps_scenario =
     \<lparr> caller_verified = True,
       derive_fields = Inr 1,
       retrieve = (\<lambda>pass p. Inr (1 / 2)),
       extract_rate = (\<lambda>pass p. if pass = 0 then 2 / 10 else 55 / 100),
       persist_ok = True,
       cancelled = (\<lambda>pass s. False),
       k_step = 10 \<rparr>"

definition caps_poor :: capabilities where
  "caps_poor =
     \<lparr> caller_verified = True,
       derive_fields = Inr 1,
       retrieve = (\<lambda>pass p. Inr (1 / 10)),
       extract_rate = (\<lambda>pass p. 0),
       persist_ok = True,
       cancelled = (\<lambda>pass s. False),
       k_step = 10 \<rparr>"

text \<open>
  Strategy results to run the retriever on: three strategies over chunks 1 to 4.
  Semantic scores weigh double.
\<close>

definition example_weights :: "strategy \<Rightarrow> rat" where
  "example_weights s = (if s = semantic then 1 else 1 / 2)"

definition example_results :: "(strategy \<times> nat scored list) list" where
  "example_results =
     [(semantic, [(1, 1 / 2), (2, 9 / 10)]),
      (keyword, [(1, 1), (3, 1)]),
      (termMatch, [(4, 1 / 10)])]"

section \<open>The API layer fails closed\<close>

lemma callBackendApi_requests:
  "fst (callBackendApi env endpoint meth d) = [] \<or>
   (\<exists>token. getToken env = Inr (Some token) \<and> token \<noteq> [] \<and>
      fst (callBackendApi env endpoint meth d) =
        [\<lparr> url = BACKEND_URL env @ endpoint, http_method = meth,
           content_type_header = ''application/json'',
           authorization = ''Bearer '' @ token,
           body = (case d of None \<Rightarrow> None | Some v \<Rightarrow> if truthy v then Some v else None) \<rparr>])"
  by (simp add: callBackendApi_def Let_def split: sum.splits option.splits)

lemma callBackendApi_with_token:
  "getToken env = Inr (Some token) \<Longrightarrow> token \<noteq> [] \<Longrightarrow>
   fst (callBackendApi env endpoint meth d) =
     [\<lparr> url = BACKEND_URL env @ endpoint, http_method = meth,
        content_type_header = ''application/json'',
        authorization = ''Bearer '' @ token,
        body = (case d of None \<Rightarrow> None | Some v \<Rightarrow> if truthy v then Some v else None) \<rparr>]"
  by (simp add: callBackendApi_def Let_def split: sum.splits option.splits)

text \<open>
  C8. A call through the API layer with no token (\<^verbatim>\<open>getToken\<close> gave \<^verbatim>\<open>null\<close> or the empty
  string) settles to the error "No Clerk token found ..." and hands nothing to
  \<^verbatim>\<open>fetch\<close>; a rejected \<^verbatim>\<open>getToken\<close> is rethrown, again with no request. Every request
  that does reach \<^verbatim>\<open>fetch\<close> carries \<^verbatim>\<open>Authorization: Bearer <token>\<close> for the non-empty
  token \<^verbatim>\<open>getToken\<close> gave.
\<close>

theorem callBackendApi_fails_closed:
  "(getToken env = Inr None \<or> getToken env = Inr (Some []) \<longrightarrow>
      callBackendApi env endpoint meth d =
        ([], Inl (Error ''No Clerk token found. User might not be authenticated.'')))
   \<and> (\<forall>e. getToken env = Inl e \<longrightarrow> callBackendApi env endpoint meth d = ([], Inl e))
   \<and> (\<forall>rq \<in> set (fst (callBackendApi env endpoint meth d)).
        \<exists>token. getToken env = Inr (Some token) \<and> token \<noteq> [] \<and>
                authorization rq = ''Bearer '' @ token)"
proof (intro conjI impI allI ballI)
  assume "getToken env = Inr None \<or> getToken env = Inr (Some [])"
  then show "callBackendApi env endpoint meth d =
      ([], Inl (Error ''No Clerk token found. User might not be authenticated.''))"
    by (auto simp: callBackendApi_def)
next
  fix e assume "getToken env = Inl e"
  then show "callBackendApi env endpoint meth d = ([], Inl e)"
    by (simp add: callBackendApi_def)
next
  fix rq assume rq: "rq \<in> set (fst (callBackendApi env endpoint meth d))"
  from callBackendApi_requests [of env endpoint meth d] rq
  show "\<exists>token. getToken env = Inr (Some token) \<and> token \<noteq> [] \<and>
                authorization rq = ''Bearer '' @ token"
    by auto
qed

theorem callBackendApi_fails_closed_witness:
  "callBackendApi env_signed_out ''/api/process'' ''POST'' None =
     ([], Inl (Error ''No Clerk token found. User might not be authenticated.''))
   \<and> map authorization (fst (callBackendApi env_signed_in ''/api/process'' ''POST'' None)) =
       [''Bearer tok'']"
  using callBackendApi_fails_closed [of env_signed_out "''/api/process''" "''POST''" None]
    callBackendApi_fails_closed [of env_signed_in "''/api/process''" "''POST''" None]
  by (simp add: env_signed_out_def env_signed_in_def callBackendApi_def matrix_response_def
      Let_def)

section \<open>Dispatch by analysis type\<close>

lemma handleExtract_calls:
  "fst (handleExtract env s) =
     [(if analysisType s = general then ''/api/process'' else ''/api/analyze-specialized'',
       ''POST'', extract_payload s)]"
  by (simp add: handleExtract_def extract_call_def extract_payload_def Let_def
      split: prod.splits)

lemma handleExtract_requests:
  "fst (snd (handleExtract env s)) =
     fst (callBackendApi env
            (if analysisType s = general then ''/api/process'' else ''/api/analyze-specialized'')
            ''POST'' (Some (extract_payload s)))"
  by (simp add: handleExtract_def extract_call_def extract_payload_def Let_def
      split: prod.splits)

lemma handleExtract_state:
  "snd (snd (handleExtract env s)) =
     (consume_result
        (s\<lparr> isLoading := True, data := JObj [], generatedColumns := JArr [],
            specializedResult := JNull \<rparr>)
        (snd (callBackendApi env
                (if analysisType s = general then ''/api/process''
                 else ''/api/analyze-specialized'')
                ''POST'' (Some (extract_payload s)))))
     \<lparr> isLoading := False \<rparr>"
  by (simp add: handleExtract_def extract_call_def extract_payload_def Let_def
      split: prod.splits)

lemma consume_result_analysisType: "analysisType (consume_result s r) = analysisType s"
  by (simp add: consume_result_def split: sum.splits)

lemma handleExtract_analysisType:
  "analysisType (snd (snd (handleExtract env s))) = analysisType s"
  by (simp add: handleExtract_state consume_result_analysisType)

lemma handleIngest_state:
  "snd (snd (handleIngest env s)) = s\<lparr> isIngesting := False \<rparr>"
  by (simp add: handleIngest_def Let_def split: prod.splits)

lemma handleIngest_calls:
  "fst (handleIngest env s) =
     (if FOLDER_ID = [] then []
      else [(''/api/ingest-documents'', ''POST'', JObj [(''folder_id'', JStr FOLDER_ID)])])"
  by (simp add: handleIngest_def Let_def split: prod.splits)

text \<open>
  C7. One run of \<^verbatim>\<open>handleExtract\<close> issues exactly one call to the API layer, chosen by
  \<open>analysisType\<close> alone. For \<open>general\<close> it is a POST to \<^verbatim>\<open>/api/process\<close> whose body is
  \<^verbatim>\<open>{prompt, analysis_type: 'general'}\<close> with the prompt of the state, and a result is
  consumed as \<^verbatim>\<open>result.columns || []\<close> and \<^verbatim>\<open>result.data || {}\<close> (the specialized result
  stays \<^verbatim>\<open>null\<close>). For every other type it is a POST to \<^verbatim>\<open>/api/analyze-specialized\<close>
  whose body is the prompt with that type's name, and the whole result is stored as the
  specialized result (columns and data stay empty). With a token the call is the one
  request \<^verbatim>\<open>fetch\<close> receives, at that endpoint under the backend URL and with that body;
  without one nothing is sent, and in no case does a request go to the other endpoint.
\<close>

theorem handleExtract_dispatch:
  "(analysisType s = general \<longrightarrow>
      fst (handleExtract env s) =
        [(''/api/process'', ''POST'',
          JObj [(''prompt'', JStr (prompt s)), (''analysis_type'', JStr ''general'')])]
      \<and> specializedResult (snd (snd (handleExtract env s))) = JNull
      \<and> (\<forall>result cols d.
            snd (callBackendApi env ''/api/process'' ''POST''
                   (Some (JObj [(''prompt'', JStr (prompt s)),
                                (''analysis_type'', JStr ''general'')])))
              = Inr result \<longrightarrow>
            get_prop result ''columns'' = Inr cols \<longrightarrow>
            get_prop result ''data'' = Inr d \<longrightarrow>
              generatedColumns (snd (snd (handleExtract env s))) = or_else cols (JArr [])
              \<and> data (snd (snd (handleExtract env s))) = or_else d (JObj [])))
   \<and> (analysisType s \<noteq> general \<longrightarrow>
      fst (handleExtract env s) =
        [(''/api/analyze-specialized'', ''POST'',
          JObj [(''prompt'', JStr (prompt s)),
                (''analysis_type'',
                 JStr (if analysisType s = risk then ''risk'' else ''compliance''))])]
      \<and> generatedColumns (snd (snd (handleExtract env s))) = JArr []
      \<and> data (snd (snd (handleExtract env s))) = JObj []
      \<and> (\<forall>result.
            snd (callBackendApi env ''/api/analyze-specialized'' ''POST''
                   (Some (JObj [(''prompt'', JStr (prompt s)),
                                (''analysis_type'',
                                 JStr (if analysisType s = risk then ''risk''
                                       else ''compliance''))])))
              = Inr result \<longrightarrow>
              specializedResult (snd (snd (handleExtract env s))) = result))
   \<and> (\<forall>token. getToken env = Inr (Some token) \<longrightarrow> token \<noteq> [] \<longrightarrow>
        map (\<lambda>rq. (url rq, http_method rq, body rq)) (fst (snd (handleExtract env s))) =
          [(BACKEND_URL env @
              (if analysisType s = general then ''/api/process''
               else ''/api/analyze-specialized''),
            ''POST'',
            Some (JObj [(''prompt'', JStr (prompt s)),
                        (''analysis_type'',
                         JStr (case analysisType s of
                                 general \<Rightarrow> ''general''
                               | risk \<Rightarrow> ''risk''
                               | compliance \<Rightarrow> ''compliance''))]))])
   \<and> length (fst (snd (handleExtract env s))) \<le> 1
   \<and> url ` set (fst (snd (handleExtract env s))) \<subseteq>
        {BACKEND_URL env @
           (if analysisType s = general then ''/api/process''
            else ''/api/analyze-specialized'')}"
proof -
  have ts: "analysis_type_string (analysisType s) =
      (case analysisType s of
         general \<Rightarrow> ''general'' | risk \<Rightarrow> ''risk'' | compliance \<Rightarrow> ''compliance'')"
    by (cases "analysisType s") simp_all
  have pg: "analysisType s = general \<Longrightarrow>
      extract_payload s =
        JObj [(''prompt'', JStr (prompt s)), (''analysis_type'', JStr ''general'')]"
    by (simp add: extract_payload_def)
  have pn: "analysisType s \<noteq> general \<Longrightarrow>
      extract_payload s =
        JObj [(''prompt'', JStr (prompt s)),
              (''analysis_type'',
               JStr (if analysisType s = risk then ''risk'' else ''compliance''))]"
    by (cases "analysisType s") (simp_all add: extract_payload_def)
  have pa: "extract_payload s =
      JObj [(''prompt'', JStr (prompt s)),
            (''analysis_type'',
             JStr (case analysisType s of
                     general \<Rightarrow> ''general'' | risk \<Rightarrow> ''risk''
                   | compliance \<Rightarrow> ''compliance''))]"
    by (simp add: extract_payload_def ts)
  have ep: "fst (extract_call s) =
      (if analysisType s = general then ''/api/process'' else ''/api/analyze-specialized'')"
    by (simp add: extract_call_def)
  have st: "snd (snd (handleExtract env s)) =
      (consume_result
         (s\<lparr> isLoading := True, data := JObj [], generatedColumns := JArr [],
             specializedResult := JNull \<rparr>)
         (snd (callBackendApi env (fst (extract_call s)) ''POST''
                 (Some (extract_payload s)))))
      \<lparr> isLoading := False \<rparr>"
    by (simp add: handleExtract_state extract_call_def)
  have rq: "fst (snd (handleExtract env s)) =
      fst (callBackendApi env (fst (extract_call s)) ''POST'' (Some (extract_payload s)))"
    by (simp add: handleExtract_requests extract_call_def)
  have general: "fst (handleExtract env s) =
        [(''/api/process'', ''POST'',
          JObj [(''prompt'', JStr (prompt s)), (''analysis_type'', JStr ''general'')])]
      \<and> specializedResult (snd (snd (handleExtract env s))) = JNull
      \<and> (\<forall>result cols d.
            snd (callBackendApi env ''/api/process'' ''POST''
                   (Some (JObj [(''prompt'', JStr (prompt s)),
                                (''analysis_type'', JStr ''general'')])))
              = Inr result \<longrightarrow>
            get_prop result ''columns'' = Inr cols \<longrightarrow>
            get_prop result ''data'' = Inr d \<longrightarrow>
              generatedColumns (snd (snd (handleExtract env s))) = or_else cols (JArr [])
              \<and> data (snd (snd (handleExtract env s))) = or_else d (JObj []))"
    if g: "analysisType s = general"
  proof (intro conjI allI impI)
    show "fst (handleExtract env s) =
        [(''/api/process'', ''POST'',
          JObj [(''prompt'', JStr (prompt s)), (''analysis_type'', JStr ''general'')])]"
      using g by (simp add: handleExtract_calls pg)
    show "specializedResult (snd (snd (handleExtract env s))) = JNull"
      using g by (simp add: st consume_result_def split: sum.splits)
    fix result cols d
    assume "snd (callBackendApi env ''/api/process'' ''POST''
                   (Some (JObj [(''prompt'', JStr (prompt s)),
                                (''analysis_type'', JStr ''general'')])))
              = Inr result"
      and "get_prop result ''columns'' = Inr cols" and "get_prop result ''data'' = Inr d"
    then show "generatedColumns (snd (snd (handleExtract env s))) = or_else cols (JArr [])"
      and "data (snd (snd (handleExtract env s))) = or_else d (JObj [])"
      using g by (simp_all add: st ep pg consume_result_def)
  qed
  have special: "fst (handleExtract env s) =
        [(''/api/analyze-specialized'', ''POST'',
          JObj [(''prompt'', JStr (prompt s)),
                (''analysis_type'',
                 JStr (if analysisType s = risk then ''risk'' else ''compliance''))])]
      \<and> generatedColumns (snd (snd (handleExtract env s))) = JArr []
      \<and> data (snd (snd (handleExtract env s))) = JObj []
      \<and> (\<forall>result.
            snd (callBackendApi env ''/api/analyze-specialized'' ''POST''
                   (Some (JObj [(''prompt'', JStr (prompt s)),
                                (''analysis_type'',
                                 JStr (if analysisType s = risk then ''risk''
                                       else ''compliance''))])))
              = Inr result \<longrightarrow>
              specializedResult (snd (snd (handleExtract env s))) = result)"
    if ng: "analysisType s \<noteq> general"
  proof (intro conjI allI impI)
    show "fst (handleExtract env s) =
        [(''/api/analyze-specialized'', ''POST'',
          JObj [(''prompt'', JStr (prompt s)),
                (''analysis_type'',
                 JStr (if analysisType s = risk then ''risk'' else ''compliance''))])]"
      using ng pn [OF ng] by (simp add: handleExtract_calls)
    show "generatedColumns (snd (snd (handleExtract env s))) = JArr []"
      using ng by (simp add: st consume_result_def split: sum.splits)
    show "data (snd (snd (handleExtract env s))) = JObj []"
      using ng by (simp add: st consume_result_def split: sum.splits)
    fix result
    assume "snd (callBackendApi env ''/api/analyze-specialized'' ''POST''
                   (Some (JObj [(''prompt'', JStr (prompt s)),
                                (''analysis_type'',
                                 JStr (if analysisType s = risk then ''risk''
                                       else ''compliance''))])))
              = Inr result"
    then have "snd (callBackendApi env (fst (extract_call s)) ''POST''
                 (Some (extract_payload s))) = Inr result"
      using ng by (simp add: ep pn [OF ng])
    then show "specializedResult (snd (snd (handleExtract env s))) = result"
      using ng by (simp add: st consume_result_def)
  qed
  have sent: "map (\<lambda>rq. (url rq, http_method rq, body rq)) (fst (snd (handleExtract env s))) =
          [(BACKEND_URL env @ fst (extract_call s), ''POST'', Some (extract_payload s))]"
    if t: "getToken env = Inr (Some token)" "token \<noteq> []" for token
  proof -
    have "truthy (extract_payload s)"
      by (simp add: extract_payload_def)
    then show ?thesis
      using callBackendApi_with_token [OF t] by (simp add: rq)
  qed
  have "fst (snd (handleExtract env s)) = [] \<or>
      (\<exists>r. fst (snd (handleExtract env s)) = [r]
            \<and> url r = BACKEND_URL env @ fst (extract_call s))"
    unfolding rq
    using callBackendApi_requests [of env "fst (extract_call s)" "''POST''"
        "Some (extract_payload s)"]
    by (elim disjE exE conjE) simp_all
  then have few: "length (fst (snd (handleExtract env s))) \<le> 1"
    and only: "url ` set (fst (snd (handleExtract env s))) \<subseteq>
      {BACKEND_URL env @ fst (extract_call s)}"
    by (elim disjE exE conjE, simp, simp)+
  show ?thesis
  proof (intro conjI impI allI)
    fix token
    assume "getToken env = Inr (Some token)" "token \<noteq> []"
    from sent [OF this] show
      "map (\<lambda>rq. (url rq, http_method rq, body rq)) (fst (snd (handleExtract env s))) =
          [(BACKEND_URL env @
              (if analysisType s = general then ''/api/process''
               else ''/api/analyze-specialized''),
            ''POST'',
            Some (JObj [(''prompt'', JStr (prompt s)),
                        (''analysis_type'',
                         JStr (case analysisType s of
                                 general \<Rightarrow> ''general''
                               | risk \<Rightarrow> ''risk''
                               | compliance \<Rightarrow> ''compliance''))]))]"
      unfolding ep pa .
  next
    show "length (fst (snd (handleExtract env s))) \<le> 1" by (rule few)
  next
    show "url ` set (fst (snd (handleExtract env s))) \<subseteq>
        {BACKEND_URL env @
           (if analysisType s = general then ''/api/process''
            else ''/api/analyze-specialized'')}"
      using only unfolding ep .
  qed (use general special in blast)+
qed

theorem handleExtract_dispatch_witness:
  "analysisType initial_state = general
   \<and> fst (handleExtract env_signed_in initial_state) =
       [(''/api/process'', ''POST'',
         JObj [(''prompt'', JStr initial_prompt), (''analysis_type'', JStr ''general'')])]
   \<and> generatedColumns (snd (snd (handleExtract env_signed_in initial_state))) =
       JArr [JStr ''Notice'']
   \<and> data (snd (snd (handleExtract env_signed_in initial_state))) =
       JObj [(''a.docx'', JObj [])]
   \<and> map (\<lambda>rq. (url rq, http_method rq, body rq))
        (fst (snd (handleExtract env_signed_in initial_state))) =
       [(''http://localhost:8000/api/process'', ''POST'',
         Some (JObj [(''prompt'', JStr initial_prompt),
                     (''analysis_type'', JStr ''general'')]))]
   \<and> analysisType (initial_state\<lparr> analysisType := risk \<rparr>) \<noteq> general
   \<and> fst (handleExtract env_signed_in (initial_state\<lparr> analysisType := risk \<rparr>)) =
       [(''/api/analyze-specialized'', ''POST'',
         JObj [(''prompt'', JStr initial_prompt), (''analysis_type'', JStr ''risk'')])]
   \<and> specializedResult
         (snd (snd (handleExtract env_signed_in (initial_state\<lparr> analysisType := risk \<rparr>)))) =
       JObj [(''columns'', JArr [JStr ''Notice'']), (''data'', JObj [(''a.docx'', JObj [])])]"
proof -
  let ?res = "JObj [(''columns'', JArr [JStr ''Notice'']), (''data'', JObj [(''a.docx'', JObj [])])]"
  let ?r = "initial_state\<lparr> analysisType := risk \<rparr>"
  have tok: "getToken env_signed_in = Inr (Some ''tok'')" "''tok'' \<noteq> []"
    by (simp_all add: env_signed_in_def)
  have res: "snd (callBackendApi env_signed_in ep ''POST'' (Some v)) = Inr ?res" for ep v
    by (simp add: callBackendApi_def env_signed_in_def matrix_response_def Let_def)
  have g: "analysisType initial_state = general"
    by (simp add: initial_state_def)
  have p: "prompt initial_state = initial_prompt" "prompt ?r = initial_prompt"
    by (simp_all add: initial_state_def)
  have r: "analysisType ?r \<noteq> general" "analysisType ?r = risk"
    by simp_all
  have url: "BACKEND_URL env_signed_in = ''http://localhost:8000''"
    by (simp add: BACKEND_URL_def env_signed_in_def)
  have props: "get_prop ?res ''columns'' = Inr (Some (JArr [JStr ''Notice'']))"
    "get_prop ?res ''data'' = Inr (Some (JObj [(''a.docx'', JObj [])]))"
    by simp_all
  note G = handleExtract_dispatch [of initial_state env_signed_in]
  note R = handleExtract_dispatch [of ?r env_signed_in]
  note Gg = mp [OF conjunct1 [OF G] g]
  note Rr = mp [OF conjunct1 [OF conjunct2 [OF R]] r(1)]
  have 1: "fst (handleExtract env_signed_in initial_state) =
       [(''/api/process'', ''POST'',
         JObj [(''prompt'', JStr initial_prompt), (''analysis_type'', JStr ''general'')])]"
    using conjunct1 [OF Gg] unfolding p .
  note 23 = conjunct2 [OF conjunct2 [OF Gg], rule_format, OF res props]
  have 2: "generatedColumns (snd (snd (handleExtract env_signed_in initial_state))) =
       JArr [JStr ''Notice'']"
    and 3: "data (snd (snd (handleExtract env_signed_in initial_state))) =
       JObj [(''a.docx'', JObj [])]"
    using 23 by simp_all
  have 4: "map (\<lambda>rq. (url rq, http_method rq, body rq))
        (fst (snd (handleExtract env_signed_in initial_state))) =
       [(''http://localhost:8000/api/process'', ''POST'',
         Some (JObj [(''prompt'', JStr initial_prompt),
                     (''analysis_type'', JStr ''general'')]))]"
    using conjunct1 [OF conjunct2 [OF conjunct2 [OF G]], rule_format, OF tok]
    unfolding p g url by simp
  have 5: "fst (handleExtract env_signed_in ?r) =
       [(''/api/analyze-specialized'', ''POST'',
         JObj [(''prompt'', JStr initial_prompt), (''analysis_type'', JStr ''risk'')])]"
    using conjunct1 [OF Rr] unfolding p r(2) by simp
  note 6 = conjunct2 [OF conjunct2 [OF conjunct2 [OF Rr]], rule_format, OF res]
  show ?thesis
    by (intro conjI) (rule g 1 2 3 4 r(1) 5 6)+
qed

section \<open>The analysis type never changes\<close>

lemma step_analysisType: "analysisType (step s ev) = analysisType s"
  by (cases ev) (simp_all add: handleExtract_analysisType handleIngest_state)

lemma foldl_step_analysisType: "analysisType (foldl step s evs) = analysisType s"
  by (induction evs arbitrary: s) (simp_all add: step_analysisType)

lemma step_specializedResult:
  "analysisType s = general \<Longrightarrow> specializedResult s = JNull \<Longrightarrow>
   specializedResult (step s ev) = JNull"
  by (cases ev)
    (simp_all add: handleExtract_state handleIngest_state consume_result_def split: sum.splits)

lemma foldl_step_specializedResult:
  "analysisType s = general \<Longrightarrow> specializedResult s = JNull \<Longrightarrow>
   specializedResult (foldl step s evs) = JNull"
  by (induction evs arbitrary: s)
    (simp_all add: step_analysisType step_specializedResult)

lemma step_calls_general:
  "analysisType s = general \<Longrightarrow>
   ''/api/analyze-specialized'' \<notin> fst ` set (step_calls s ev)"
  by (cases ev) (simp_all add: handleExtract_calls handleIngest_calls)

lemma calls_from_general:
  "analysisType s = general \<Longrightarrow>
   ''/api/analyze-specialized'' \<notin> fst ` set (calls_from s evs)"
proof (induction evs arbitrary: s)
  case Nil
  show ?case by simp
next
  case (Cons ev evs)
  have "analysisType (step s ev) = general"
    using Cons.prems by (simp add: step_analysisType)
  from Cons.IH [OF this] step_calls_general [OF Cons.prems, of ev]
  show ?case by (simp add: image_Un)
qed

text \<open>
  C10. \<open>analysisType\<close> starts as \<open>general\<close> and no handler writes it, so it is \<open>general\<close>
  after any sequence of interactions. From every reachable state \<^verbatim>\<open>handleExtract\<close> calls
  \<^verbatim>\<open>/api/process\<close>; no interaction ever calls \<^verbatim>\<open>/api/analyze-specialized\<close>; the
  specialized result stays \<^verbatim>\<open>null\<close>, and the results area is always the matrix table.
\<close>

theorem analysisType_always_general:
  "analysisType initial_state = general
   \<and> analysisType (step s ev) = analysisType s
   \<and> analysisType (run evs) = general
   \<and> fst (handleExtract env (run evs)) =
       [(''/api/process'', ''POST'', extract_payload (run evs))]
   \<and> ''/api/analyze-specialized'' \<notin> fst ` set (run_calls evs)
   \<and> specializedResult (run evs) = JNull
   \<and> render_results (run evs) =
       MatrixTableView (generatedColumns (run evs)) (data (run evs))
         (isLoading (run evs)) (prompt (run evs))"
proof -
  have i: "analysisType initial_state = general" "specializedResult initial_state = JNull"
    by (simp_all add: initial_state_def)
  have g: "analysisType (run evs) = general"
    by (simp add: run_def foldl_step_analysisType i)
  have c: "''/api/analyze-specialized'' \<notin> fst ` set (run_calls evs)"
    unfolding run_calls_def by (rule calls_from_general [OF i(1)])
  have n: "specializedResult (run evs) = JNull"
    unfolding run_def by (rule foldl_step_specializedResult [OF i])
  show ?thesis
    using i g c n by (simp add: step_analysisType handleExtract_calls render_results_def)
qed

section \<open>Empty cells and the extraction count\<close>

lemma MatrixCell_empty_iff:
  "MatrixCell cell = EmptyCell \<longleftrightarrow>
     (cell = None \<or>
      (\<exists>d. cell = Some d \<and>
         (cell_value d = None \<or>
          cell_value d \<in> Some ` {[], ''N/A'', ''Not found'', ''Not specified'', ''Not Found''})))"
  by (auto simp: MatrixCell_def split: option.splits)

lemma extraction_filter_iff:
  "extraction_filter cell \<longleftrightarrow>
     (\<exists>d v. cell = Some d \<and> cell_value d = Some v \<and> v \<notin> {[], ''N/A'', ''Not found''})"
  by (auto simp: extraction_filter_def split: option.splits)

lemma totalExtractions_sum:
  "totalExtractions mdata =
     (\<Sum>docData \<leftarrow> map snd mdata. length (filter extraction_filter (map snd docData)))"
proof -
  have "foldl (\<lambda>total docData. total + length (filter extraction_filter (map snd docData)))
          a rows =
        a + (\<Sum>docData \<leftarrow> rows. length (filter extraction_filter (map snd docData)))"
    for a :: nat and rows :: "MatrixRow list"
    by (induction rows arbitrary: a) simp_all
  then show ?thesis
    by (simp add: totalExtractions_def)
qed

text \<open>
  C9. \<^verbatim>\<open>MatrixCell\<close> renders the placeholder exactly for a missing cell, a missing or
  empty value, and the values 'N/A', 'Not found', 'Not specified' and 'Not Found'. The
  count of \<^verbatim>\<open>MatrixTable\<close> keeps a cell exactly when its value is present, non-empty and
  neither 'N/A' nor 'Not found'. So a cell valued 'Not specified' or 'Not Found' is shown
  as empty and still counted: a table holding only such a cell reports 1 extraction.
\<close>

theorem empty_cells_and_extraction_count:
  "(MatrixCell cell = EmptyCell \<longleftrightarrow>
      (cell = None \<or>
       (\<exists>d. cell = Some d \<and>
          (cell_value d = None \<or>
           cell_value d \<in>
             Some ` {[], ''N/A'', ''Not found'', ''Not specified'', ''Not Found''}))))
   \<and> (extraction_filter cell \<longleftrightarrow>
        (\<exists>d v. cell = Some d \<and> cell_value d = Some v \<and> v \<notin> {[], ''N/A'', ''Not found''}))
   \<and> totalExtractions mdata =
        (\<Sum>docData \<leftarrow> map snd mdata. length (filter extraction_filter (map snd docData)))
   \<and> MatrixCell (Some (d\<lparr> cell_value := Some ''Not specified'' \<rparr>)) = EmptyCell
   \<and> extraction_filter (Some (d\<lparr> cell_value := Some ''Not specified'' \<rparr>))
   \<and> MatrixCell (Some (d\<lparr> cell_value := Some ''Not Found'' \<rparr>)) = EmptyCell
   \<and> extraction_filter (Some (d\<lparr> cell_value := Some ''Not Found'' \<rparr>))
   \<and> row_cells [col] [(col, Some (d\<lparr> cell_value := Some ''Not specified'' \<rparr>))] = [EmptyCell]
   \<and> totalExtractions [(doc, [(col, Some (d\<lparr> cell_value := Some ''Not specified'' \<rparr>))])] = 1
   \<and> row_cells [col] [(col, Some (d\<lparr> cell_value := Some ''Not Found'' \<rparr>))] = [EmptyCell]
   \<and> totalExtractions [(doc, [(col, Some (d\<lparr> cell_value := Some ''Not Found'' \<rparr>))])] = 1"
proof -
  have a: "MatrixCell (Some (d\<lparr> cell_value := Some ''Not specified'' \<rparr>)) = EmptyCell"
    "MatrixCell (Some (d\<lparr> cell_value := Some ''Not Found'' \<rparr>)) = EmptyCell"
    by (simp_all add: MatrixCell_def)
  have b: "extraction_filter (Some (d\<lparr> cell_value := Some ''Not specified'' \<rparr>))"
    "extraction_filter (Some (d\<lparr> cell_value := Some ''Not Found'' \<rparr>))"
    by (simp_all add: extraction_filter_def)
  have c: "row_cells [col] [(col, Some x)] = [MatrixCell (Some x)]" for x
    by (simp add: row_cells_def)
  have e: "totalExtractions [(doc, [(col, x)])] = (if extraction_filter x then 1 else 0)" for x
    by (simp add: totalExtractions_def)
  show ?thesis
    using MatrixCell_empty_iff [of cell] extraction_filter_iff [of cell]
      totalExtractions_sum [of mdata]
    by (simp only: a b c e if_True simp_thms)
qed

section \<open>Rank fusion\<close>

lemma upsert_max_keys: "fst ` set (upsert_max x xs) = insert (fst x) (fst ` set xs)"
  by (induction x xs rule: upsert_max.induct) auto

lemma upsert_max_distinct:
  "distinct (map fst xs) \<Longrightarrow> distinct (map fst (upsert_max x xs))"
proof (induction x xs rule: upsert_max.induct)
  case (1 c s)
  show ?case by simp
next
  case (2 c s c' s' rest)
  then show ?case
    using upsert_max_keys [of "(c, s)" rest] by (auto simp: image_iff)
qed

lemma map_of_upsert_max:
  "map_of (upsert_max (c, s) xs) =
     (map_of xs)(c \<mapsto> (case map_of xs c of None \<Rightarrow> s | Some s' \<Rightarrow> max s s'))"
  by (induction "(c, s)" xs rule: upsert_max.induct) (auto simp: fun_eq_iff)

lemma merge_by_chunk_snoc:
  "merge_by_chunk (xs @ [x]) = upsert_max x (merge_by_chunk xs)"
  by (simp add: merge_by_chunk_def)

lemma merge_by_chunk_distinct: "distinct (map fst (merge_by_chunk xs))"
proof (induction xs rule: rev_induct)
  case Nil
  show ?case by (simp add: merge_by_chunk_def)
next
  case (snoc x xs)
  then show ?case by (simp add: merge_by_chunk_snoc upsert_max_distinct)
qed

text \<open>The fused score of a chunk is the greatest of the weighted scores given to it.\<close>

lemma map_of_merge_by_chunk:
  "map_of (merge_by_chunk xs) c =
     (if c \<in> fst ` set xs then Some (Max (snd ` {x \<in> set xs. fst x = c})) else None)"
proof (induction xs rule: rev_induct)
  case Nil
  show ?case by (simp add: merge_by_chunk_def)
next
  case (snoc x xs)
  obtain c' s where x: "x = (c', s)" by (cases x)
  show ?case
  proof (cases "c = c'")
    case False
    then have "{y \<in> set (xs @ [x]). fst y = c} = {y \<in> set xs. fst y = c}"
      using x by auto
    with False snoc x show ?thesis
      by (simp add: merge_by_chunk_snoc map_of_upsert_max)
  next
    case True
    have eq: "{y \<in> set (xs @ [x]). fst y = c} = insert x {y \<in> set xs. fst y = c}"
      using x True by auto
    show ?thesis
    proof (cases "c \<in> fst ` set xs")
      case False
      then have e: "{y \<in> set xs. fst y = c} = {}" by force
      have "snd ` {y \<in> set (xs @ [x]). fst y = c} = {s}"
        unfolding eq e using x by simp
      with False snoc x True show ?thesis
        by (simp add: merge_by_chunk_snoc map_of_upsert_max)
    next
      case in_xs: True
      then have ne: "snd ` {y \<in> set xs. fst y = c} \<noteq> {}" by force
      have fin: "finite (snd ` {y \<in> set xs. fst y = c})" by simp
      have "Max (snd ` insert x {y \<in> set xs. fst y = c}) =
            max s (Max (snd ` {y \<in> set xs. fst y = c}))"
        using Max_insert [OF fin ne, of s] x by simp
      with in_xs snoc x True eq show ?thesis
        by (simp add: merge_by_chunk_snoc map_of_upsert_max)
    qed
  qed
qed

lemma merge_by_chunk_set_cong:
  assumes "set xs = set ys"
  shows "set (merge_by_chunk xs) = set (merge_by_chunk ys)"
proof -
  have "map_of (merge_by_chunk xs) = map_of (merge_by_chunk ys)"
    by (rule ext) (simp add: map_of_merge_by_chunk assms)
  then show ?thesis
    using map_of_inject_set [OF merge_by_chunk_distinct merge_by_chunk_distinct] by blast
qed

lemma rank_key_inj: "rank_key x = rank_key y \<longleftrightarrow> x = y"
  by (auto simp: rank_key_def prod_eq_iff)

lemma sort_rank_unique:
  fixes xs ys :: "('c::linorder) scored list"
  assumes "set xs = set ys" "distinct xs" "distinct ys"
  shows "sort_key rank_key xs = sort_key rank_key ys"
proof -
  have inj: "inj_on rank_key A" for A :: "'c scored set"
    by (rule inj_onI) (simp add: rank_key_inj)
  have "map rank_key (sort_key rank_key xs) = map rank_key (sort_key rank_key ys)"
  proof (rule sorted_distinct_set_unique)
    show "distinct (map rank_key (sort_key rank_key xs))"
      using assms(2) by (simp add: distinct_map inj)
    show "distinct (map rank_key (sort_key rank_key ys))"
      using assms(3) by (simp add: distinct_map inj)
    show "set (map rank_key (sort_key rank_key xs)) = set (map rank_key (sort_key rank_key ys))"
      using assms(1) by simp
  qed simp_all
  then show ?thesis
    using inj_on_map_eq_map [OF inj] by blast
qed

lemma merged_distinct:
  "distinct (merge_by_chunk xs)"
  using merge_by_chunk_distinct [of xs] by (rule distinct_map [THEN iffD1, THEN conjunct1])

lemma fuse_cong:
  fixes rs rs' :: "(strategy \<times> ('c::linorder) scored list) list"
  assumes "set rs' = set rs"
  shows "fuse w p rs' = fuse w p rs"
proof -
  let ?m = "\<lambda>r. merge_by_chunk (concat (map (weighted w) r))"
  have "set (concat (map (weighted w) rs')) = set (concat (map (weighted w) rs))"
    using assms by simp
  then have s: "set (?m rs') = set (?m rs)"
    by (rule merge_by_chunk_set_cong)
  have "sort_key rank_key (filter (\<lambda>x. scoreThreshold p \<le> snd x) (?m rs')) =
        sort_key rank_key (filter (\<lambda>x. scoreThreshold p \<le> snd x) (?m rs))"
    by (rule sort_rank_unique) (simp_all add: s merged_distinct)
  then show ?thesis
    by (simp add: fuse_def)
qed

lemma fuse_subset_merged:
  "set (fuse w p rs) \<subseteq>
     {x \<in> set (merge_by_chunk (concat (map (weighted w) rs))). scoreThreshold p \<le> snd x}"
proof -
  have "set (fuse w p rs) \<subseteq>
      set (sort_key rank_key (filter (\<lambda>x. scoreThreshold p \<le> snd x)
             (merge_by_chunk (concat (map (weighted w) rs)))))"
    unfolding fuse_def by (rule set_take_subset)
  then show ?thesis by auto
qed

lemma fuse_distinct_chunks: "distinct (map fst (fuse w p rs))"
proof -
  let ?m = "merge_by_chunk (concat (map (weighted w) rs))"
  have "distinct (map fst (filter (\<lambda>x. scoreThreshold p \<le> snd x) ?m))"
    by (rule distinct_map_filter) (rule merge_by_chunk_distinct)
  then have "distinct (map fst (sort_key rank_key (filter (\<lambda>x. scoreThreshold p \<le> snd x) ?m)))"
    by (metis (no_types) distinct_map distinct_sort set_sort)
  then show ?thesis
    unfolding fuse_def take_map [symmetric] by (rule distinct_take)
qed

lemma fuse_score:
  assumes "(c, s) \<in> set (fuse w p rs)"
  shows "scoreThreshold p \<le> s"
    and "s = Max (snd ` {x \<in> set (concat (map (weighted w) rs)). fst x = c})"
proof -
  let ?all = "concat (map (weighted w) rs)"
  from assms fuse_subset_merged [of w p rs]
  have m: "(c, s) \<in> set (merge_by_chunk ?all)" and t: "scoreThreshold p \<le> s"
    by auto
  show "scoreThreshold p \<le> s" by (rule t)
  from m have "map_of (merge_by_chunk ?all) c = Some s"
    by (simp add: merge_by_chunk_distinct)
  then show "s = Max (snd ` {x \<in> set ?all. fst x = c})"
    by (simp add: map_of_merge_by_chunk split: if_splits)
qed

text \<open>
  C5. Merging the strategies' candidate lists in any order gives the same ranked
  top-\<open>K\<close> list. The list holds each chunk at most once, with the greatest weighted score
  any strategy gave it; every score is at least \<open>scoreThreshold\<close>; it has at most \<open>K\<close>
  entries, ordered by falling score and, on equal scores, by rising chunk identifier.
\<close>

theorem fuse_order_invariant:
  fixes rs rs' :: "(strategy \<times> ('c::linorder) scored list) list"
  shows "(mset rs' = mset rs \<longrightarrow> fuse w p rs' = fuse w p rs)
   \<and> distinct (map fst (fuse w p rs))
   \<and> (\<forall>(c, s) \<in> set (fuse w p rs).
        scoreThreshold p \<le> s
        \<and> s = Max (snd ` {x \<in> set (concat (map (weighted w) rs)). fst x = c}))
   \<and> length (fuse w p rs) \<le> topK p
   \<and> sorted (map rank_key (fuse w p rs))"
proof (intro conjI impI)
  assume "mset rs' = mset rs"
  then have "set rs' = set rs" by (rule mset_eq_setD)
  then show "fuse w p rs' = fuse w p rs" by (rule fuse_cong)
next
  show "distinct (map fst (fuse w p rs))" by (rule fuse_distinct_chunks)
next
  show "\<forall>(c, s) \<in> set (fuse w p rs).
        scoreThreshold p \<le> s
        \<and> s = Max (snd ` {x \<in> set (concat (map (weighted w) rs)). fst x = c})"
    using fuse_score [of _ _ w p rs] by blast
next
  show "length (fuse w p rs) \<le> topK p" by (simp add: fuse_def)
next
  show "sorted (map rank_key (fuse w p rs))"
    unfolding fuse_def take_map [symmetric] by (rule sorted_wrt_take) simp
qed

lemma fuse_example:
  "fuse example_weights default_params example_results = [(2, 9 / 10), (1, 1 / 2), (3, 1 / 2)]"
  "fuse example_weights default_params (rev example_results) =
     [(2, 9 / 10), (1, 1 / 2), (3, 1 / 2)]"
  by (simp_all add: fuse_def weighted_def merge_by_chunk_def rank_key_def example_weights_def
      example_results_def default_params_def)

theorem fuse_order_invariant_witness:
  "mset (rev example_results) = mset example_results
   \<and> fuse example_weights default_params (rev example_results) =
       fuse example_weights default_params example_results
   \<and> fuse example_weights default_params example_results =
       [(2, 9 / 10), (1, 1 / 2), (3, 1 / 2)]"
  using fuse_order_invariant [of "rev example_results" example_results example_weights
      default_params]
  by (simp add: fuse_example)

section \<open>The retry loop is bounded\<close>

lemma trace_unfold_terminal: "terminal (stage st) \<Longrightarrow> trace caps st = [st]"
  by (subst trace.simps) simp

lemma trace_unfold_step:
  "\<not> terminal (stage st) \<Longrightarrow> trace caps st = st # trace caps (advance caps st)"
  by (subst trace.simps) simp

lemma trace_nonempty: "trace caps st \<noteq> []"
  by (subst trace.simps) simp

lemma hd_trace: "hd (trace caps st) = st"
  by (subst trace.simps) simp

lemma advance_retryCount:
  "retryCount st \<le> MAX_RETRIES \<Longrightarrow> retryCount (advance caps st) \<le> MAX_RETRIES"
  by (cases "stage st") (simp_all add: advance_def validate_def Let_def split: sum.splits)

lemma trace_retryCount:
  "retryCount st \<le> MAX_RETRIES \<Longrightarrow> t \<in> set (trace caps st) \<Longrightarrow> retryCount t \<le> MAX_RETRIES"
proof (induction caps st rule: trace.induct)
  case (1 caps st)
  show ?case
  proof (cases "terminal (stage st)")
    case True
    with "1.prems" show ?thesis by (simp add: trace_unfold_terminal)
  next
    case False
    from "1.prems"(2) False have "t = st \<or> t \<in> set (trace caps (advance caps st))"
      by (simp add: trace_unfold_step)
    then show ?thesis
    proof
      assume "t = st"
      with "1.prems"(1) show ?thesis by simp
    next
      assume "t \<in> set (trace caps (advance caps st))"
      with "1.IH" [OF False advance_retryCount [OF "1.prems"(1)]] show ?thesis .
    qed
  qed
qed

lemma trace_last_terminal: "terminal (stage (last (trace caps st)))"
proof (induction caps st rule: trace.induct)
  case (1 caps st)
  show ?case
  proof (cases "terminal (stage st)")
    case True
    then show ?thesis by (simp add: trace_unfold_terminal)
  next
    case False
    with 1 show ?thesis
      by (simp add: trace_unfold_step trace_nonempty)
  qed
qed

text \<open>Only the retry edge counts a retry.\<close>

lemma advance_back_edge:
  "retryCount (advance caps st) =
     (if stage st = Validating \<and> stage (advance caps st) = Retrieving
      then retryCount st + 1 else retryCount st)"
  by (cases "stage st") (simp_all add: advance_def Let_def split: sum.splits)

lemma trace_back_edges:
  "retryCount st + back_edges (trace caps st) = retryCount (last (trace caps st))"
proof (induction caps st rule: trace.induct)
  case (1 caps st)
  show ?case
  proof (cases "terminal (stage st)")
    case True
    then show ?thesis by (simp add: trace_unfold_terminal)
  next
    case False
    obtain b rest where tr: "trace caps (advance caps st) = b # rest"
      using trace_nonempty [of caps "advance caps st"]
      by (cases "trace caps (advance caps st)") simp_all
    have b: "b = advance caps st"
      using hd_trace [of caps "advance caps st"] tr by simp
    have ih: "retryCount (advance caps st) + back_edges (b # rest) = retryCount (last (b # rest))"
      using "1.IH" [OF False] tr by simp
    have unf: "trace caps st = st # b # rest"
      using False tr by (simp add: trace_unfold_step)
    have "back_edges (st # b # rest) =
        (if stage st = Validating \<and> stage b = Retrieving then 1 else 0) + back_edges (b # rest)"
      by simp
    moreover have "last (st # b # rest) = last (b # rest)"
      by simp
    ultimately show ?thesis
      unfolding unf using ih advance_back_edge [of caps st] b
      by (simp only: split: if_splits) simp_all
  qed
qed

lemma run_scenario:
  "map stage (trace caps_scenario initial_workflow) =
     [Processing, Retrieving, Extracting, Validating, Retrieving, Extracting, Validating,
      Synthesizing, Done]"
  "retryCount (runAnalysis caps_scenario) = 1"
  "retrievalParams (runAnalysis caps_scenario) = \<lparr> scoreThreshold = 15 / 100, topK = 30 \<rparr>"
  by (simp_all add: runAnalysis_def trace.simps initial_workflow_def caps_scenario_def
      advance_def validate_def relax_def default_params_def MAX_RETRIES_def
      MIN_SUCCESS_RATE_def MIN_RETRIEVAL_CONFIDENCE_def Let_def)

lemma run_poor:
  "map stage (trace caps_poor initial_workflow) =
     [Processing, Retrieving, Extracting, Validating, Retrieving, Extracting, Validating,
      Retrieving, Extracting, Validating, Retrieving, Extracting, Validating,
      Synthesizing, Done]"
  "map retryCount (trace caps_poor initial_workflow) =
     [0, 0, 0, 0, 1, 1, 1, 2, 2, 2, 3, 3, 3, 3, 3]"
  "retryCount (runAnalysis caps_poor) = 3"
  by (simp_all add: runAnalysis_def trace.simps initial_workflow_def caps_poor_def
      advance_def validate_def relax_def default_params_def MAX_RETRIES_def
      MIN_SUCCESS_RATE_def MIN_RETRIEVAL_CONFIDENCE_def Let_def)

text \<open>
  C1. Whatever the capabilities answer, every state of a request's run, the final one
  with its pass metadata included, has \<open>retryCount \<le> MAX_RETRIES = 3\<close>. The run ends in a
  terminal state, and the retry edge from Validating to Retrieving is taken exactly
  \<open>retryCount\<close> times, so at most \<open>MAX_RETRIES\<close> times.
\<close>

theorem retryCount_bounded:
  "MAX_RETRIES = 3
   \<and> (\<forall>st \<in> set (trace caps initial_workflow). retryCount st \<le> MAX_RETRIES)
   \<and> retryCount (runAnalysis caps) \<le> MAX_RETRIES
   \<and> terminal (stage (runAnalysis caps))
   \<and> back_edges (trace caps initial_workflow) = retryCount (runAnalysis caps)
   \<and> back_edges (trace caps initial_workflow) \<le> MAX_RETRIES"
proof -
  have i: "retryCount initial_workflow \<le> MAX_RETRIES" "retryCount initial_workflow = 0"
    by (simp_all add: initial_workflow_def)
  have a: "\<forall>st \<in> set (trace caps initial_workflow). retryCount st \<le> MAX_RETRIES"
    using trace_retryCount [OF i(1)] by blast
  have "runAnalysis caps \<in> set (trace caps initial_workflow)"
    unfolding runAnalysis_def by (rule last_in_set) (rule trace_nonempty)
  with a have b: "retryCount (runAnalysis caps) \<le> MAX_RETRIES"
    by blast
  have c: "terminal (stage (runAnalysis caps))"
    unfolding runAnalysis_def by (rule trace_last_terminal)
  have d: "back_edges (trace caps initial_workflow) = retryCount (runAnalysis caps)"
    using trace_back_edges [of initial_workflow caps] i(2) by (simp add: runAnalysis_def)
  show ?thesis
    using a b c d by (simp add: MAX_RETRIES_def)
qed

theorem retryCount_bounded_witness:
  "map retryCount (trace caps_poor initial_workflow) =
     [0, 0, 0, 0, 1, 1, 1, 2, 2, 2, 3, 3, 3, 3, 3]
   \<and> list_all (\<lambda>st. retryCount st \<le> MAX_RETRIES) (trace caps_poor initial_workflow)
   \<and> retryCount (runAnalysis caps_poor) = 3
   \<and> back_edges (trace caps_poor initial_workflow) = 3
   \<and> retryCount (runAnalysis caps_scenario) = 1
   \<and> back_edges (trace caps_scenario initial_workflow) = 1"
  using retryCount_bounded [of caps_poor] retryCount_bounded [of caps_scenario]
  by (simp add: run_poor run_scenario list_all_iff)

end
